theory Spec2Isabelle
  imports Main "HOL-Library.Word"
begin

section \<open>DXVK images and image views (src/dxvk/dxvk_image.h)\<close>

text \<open>
  A shallow embedding of the inline member functions of \<^verbatim>\<open>DxvkImage\<close> and
  \<^verbatim>\<open>DxvkImageView\<close>. Every \<^verbatim>\<open>uint32_t\<close> and every Vulkan enum or flag word is a
  32-bit word, so \<open>+\<close> wraps modulo \<open>2 ^ 32\<close> and \<open>\<le>\<close> is the unsigned order. Vulkan
  non-dispatchable handles are 64-bit words. Members that none of the embedded
  functions read (the driver function table \<^verbatim>\<open>m_vkd\<close>, \<^verbatim>\<open>m_memFlags\<close>,
  \<^verbatim>\<open>m_viewFormats\<close> and the view handle table \<^verbatim>\<open>m_views\<close>) are left out of the
  records. Where two structures of the source share a field name, the field of one
  of them carries a suffix.
\<close>

subsection \<open>Data model\<close>

type_synonym uint32_t = "32 word"
type_synonym VkFormat = "32 word"
type_synonym VkImageType = "32 word"
type_synonym VkImageViewType = "32 word"
type_synonym VkImageLayout = "32 word"
type_synonym VkImageTiling = "32 word"
type_synonym VkFlags = "32 word"
type_synonym VkImageAspectFlags = "32 word"
type_synonym VkComponentSwizzle = "32 word"
type_synonym VkImage = "64 word"

text \<open>Constants of the Vulkan headers that the source refers to.\<close>

definition VK_IMAGE_LAYOUT_GENERAL :: VkImageLayout where
  "VK_IMAGE_LAYOUT_GENERAL = 1"

definition VK_IMAGE_VIEW_TYPE_2D :: VkImageViewType where
  "VK_IMAGE_VIEW_TYPE_2D = 1"

definition VK_FORMAT_UNDEFINED :: VkFormat where
  "VK_FORMAT_UNDEFINED = 0"

definition VK_COMPONENT_SWIZZLE_IDENTITY :: VkComponentSwizzle where
  "VK_COMPONENT_SWIZZLE_IDENTITY = 0"

record VkExtent3D =
  width :: uint32_t
  height :: uint32_t
  depth :: uint32_t

record VkComponentMapping =
  swizzle_r :: VkComponentSwizzle
  swizzle_g :: VkComponentSwizzle
  swizzle_b :: VkComponentSwizzle
  swizzle_a :: VkComponentSwizzle

record VkImageSubresourceLayers =
  aspectMask_layers :: VkImageAspectFlags
  mipLevel :: uint32_t
  baseArrayLayer_layers :: uint32_t
  layerCount_layers :: uint32_t

record VkImageSubresourceRange =
  aspectMask :: VkImageAspectFlags
  baseMipLevel :: uint32_t
  levelCount :: uint32_t
  baseArrayLayer :: uint32_t
  layerCount :: uint32_t

text \<open>
  \<^verbatim>\<open>struct DxvkImageCreateInfo\<close>. The pair \<^verbatim>\<open>viewFormatCount\<close>, \<^verbatim>\<open>viewFormats\<close> is
  the list \<open>viewFormats\<close>.
\<close>

record DxvkImageCreateInfo =
  type_image :: VkImageType
  format_image :: VkFormat
  flags :: VkFlags
  sampleCount :: VkFlags
  extent :: VkExtent3D
  numLayers_image :: uint32_t
  mipLevels :: uint32_t
  usage_image :: VkFlags
  stages :: VkFlags
  access :: VkFlags
  tiling :: VkImageTiling
  layout :: VkImageLayout
  viewFormats :: "VkFormat list"

text \<open>\<^verbatim>\<open>struct DxvkImageViewCreateInfo\<close>, and the value its default member
  initialisers give.\<close>

record DxvkImageViewCreateInfo =
  type :: VkImageViewType
  format :: VkFormat
  usage :: VkFlags
  aspect :: VkImageAspectFlags
  minLevel :: uint32_t
  numLevels :: uint32_t
  minLayer :: uint32_t
  numLayers :: uint32_t
  swizzle :: VkComponentMapping

definition DxvkImageViewCreateInfo_default :: DxvkImageViewCreateInfo where
  "DxvkImageViewCreateInfo_default =
     \<lparr> type = VK_IMAGE_VIEW_TYPE_2D, format = VK_FORMAT_UNDEFINED, usage = 0,
       aspect = 0, minLevel = 0, numLevels = 0, minLayer = 0, numLayers = 0,
       swizzle = \<lparr> swizzle_r = VK_COMPONENT_SWIZZLE_IDENTITY,
                   swizzle_g = VK_COMPONENT_SWIZZLE_IDENTITY,
                   swizzle_b = VK_COMPONENT_SWIZZLE_IDENTITY,
                   swizzle_a = VK_COMPONENT_SWIZZLE_IDENTITY \<rparr> \<rparr>"

text \<open>
  Modelled from the spec: \<^verbatim>\<open>DxvkMemory\<close> is declared in dxvk_memory.h, which is not
  among the files embedded here. The spec speaks of a memory block that the allocator
  hands out and takes back; a block is identified here by a 64-bit handle.
\<close>

type_synonym DxvkMemory = "64 word"

text \<open>
  Modelled from the spec: \<^verbatim>\<open>DxvkFormatInfo\<close> is declared in dxvk_format.h, which is
  not among the files embedded here. The spec says that the format registry returns,
  for a pixel format, metadata that includes the full aspect mask; that is the one
  field the code reads.
\<close>

record DxvkFormatInfo =
  aspectMask_format :: VkImageAspectFlags

text \<open>
  \<^verbatim>\<open>class DxvkImage\<close>. The member \<open>m_memory\<close> is \<open>None\<close> when no memory block is
  bound to the image.
\<close>

record DxvkImage =
  m_info :: DxvkImageCreateInfo
  m_memory :: "DxvkMemory option"
  m_image :: VkImage

text \<open>
  \<^verbatim>\<open>class DxvkImageView\<close>. The view shares its image through \<^verbatim>\<open>Rc<DxvkImage>\<close>; none
  of the embedded functions writes to the image, so the view holds its value.
\<close>

record DxvkImageView =
  m_image_view :: DxvkImage
  m_info_view :: DxvkImageViewCreateInfo
  m_rtBindingFrameId :: uint32_t
  m_rtBindingFrameCount :: uint32_t

subsection \<open>DxvkImage\<close>

text \<open>
  The unsigned right shift of C++ on \<^verbatim>\<open>uint32_t\<close>. The language leaves the shift
  undefined when the count is not smaller than the width of the operand, 32; that
  case is \<open>None\<close>.
\<close>

definition shr_u32 :: "uint32_t \<Rightarrow> uint32_t \<Rightarrow> uint32_t option" where
  "shr_u32 x n = (if unat n < 32 then Some (drop_bit (unat n) x) else None)"

text \<open>
  \<^verbatim>\<open>DxvkImage::formatInfo\<close>. The registry function \<^verbatim>\<open>imageFormatInfo\<close> of
  dxvk_format.h is a parameter.
\<close>

definition formatInfo :: "(VkFormat \<Rightarrow> DxvkFormatInfo) \<Rightarrow> DxvkImage \<Rightarrow> DxvkFormatInfo" where
  "formatInfo imageFormatInfo img = imageFormatInfo (format_image (m_info img))"

text \<open>\<^verbatim>\<open>DxvkImage::mipLevelExtent\<close>: three shifts, each clamped from below by 1.\<close>

definition mipLevelExtent :: "DxvkImage \<Rightarrow> uint32_t \<Rightarrow> VkExtent3D option" where
  "mipLevelExtent img level =
     (let sz = extent (m_info img) in
      case shr_u32 (width sz) level of None \<Rightarrow> None | Some w \<Rightarrow>
      (case shr_u32 (height sz) level of None \<Rightarrow> None | Some h \<Rightarrow>
      (case shr_u32 (depth sz) level of None \<Rightarrow> None | Some d \<Rightarrow>
         Some (sz \<lparr> width := max 1 w, height := max 1 h, depth := max 1 d \<rparr>))))"

text \<open>\<^verbatim>\<open>DxvkImage::pickLayout\<close>.\<close>

definition pickLayout :: "DxvkImage \<Rightarrow> VkImageLayout \<Rightarrow> VkImageLayout" where
  "pickLayout img requested =
     (if layout (m_info img) = VK_IMAGE_LAYOUT_GENERAL
      then VK_IMAGE_LAYOUT_GENERAL else requested)"

text \<open>
  \<^verbatim>\<open>DxvkImage::isFullSubresource\<close>. The operator \<^verbatim>\<open>&&\<close> evaluates its right operand
  only when the left one holds, so the mip level extent is computed only for a
  matching aspect mask. The comparison of two \<^verbatim>\<open>VkExtent3D\<close> values compares the
  three components.
\<close>

definition isFullSubresource ::
  "(VkFormat \<Rightarrow> DxvkFormatInfo) \<Rightarrow> DxvkImage \<Rightarrow> VkImageSubresourceLayers \<Rightarrow> VkExtent3D
     \<Rightarrow> bool option" where
  "isFullSubresource imageFormatInfo img subresource ext =
     (if aspectMask_layers subresource = aspectMask_format (formatInfo imageFormatInfo img)
      then (case mipLevelExtent img (mipLevel subresource) of
              None \<Rightarrow> None
            | Some e \<Rightarrow> Some (ext = e))
      else Some False)"

subsection \<open>DxvkImageView\<close>

text \<open>\<^verbatim>\<open>DxvkImageView::mipLevelExtent\<close>; the sum is a \<^verbatim>\<open>uint32_t\<close> sum.\<close>

definition mipLevelExtent_view :: "DxvkImageView \<Rightarrow> uint32_t \<Rightarrow> VkExtent3D option" where
  "mipLevelExtent_view v level =
     mipLevelExtent (m_image_view v) (level + minLevel (m_info_view v))"

text \<open>\<^verbatim>\<open>DxvkImageView::subresources\<close>.\<close>

definition subresources :: "DxvkImageView \<Rightarrow> VkImageSubresourceRange" where
  "subresources v =
     \<lparr> aspectMask = aspect (m_info_view v),
       baseMipLevel = minLevel (m_info_view v),
       levelCount = numLevels (m_info_view v),
       baseArrayLayer = minLayer (m_info_view v),
       layerCount = numLayers (m_info_view v) \<rparr>"

text \<open>\<^verbatim>\<open>DxvkImageView::pickLayout\<close>.\<close>

definition pickLayout_view :: "DxvkImageView \<Rightarrow> VkImageLayout \<Rightarrow> VkImageLayout" where
  "pickLayout_view v requested = pickLayout (m_image_view v) requested"

text \<open>\<^verbatim>\<open>DxvkImageView::setRtBindingFrameId\<close>; the view is passed and returned.\<close>

definition setRtBindingFrameId :: "DxvkImageView \<Rightarrow> uint32_t \<Rightarrow> DxvkImageView" where
  "setRtBindingFrameId v frameId =
     (if frameId \<noteq> m_rtBindingFrameId v
      then (let v' = (if frameId = m_rtBindingFrameId v + 1
                      then v \<lparr> m_rtBindingFrameCount := m_rtBindingFrameCount v + 1 \<rparr>
                      else v \<lparr> m_rtBindingFrameCount := 0 \<rparr>)
            in v' \<lparr> m_rtBindingFrameId := frameId \<rparr>)
      else v)"

text \<open>\<^verbatim>\<open>DxvkImageView::getRtBindingAsyncCompilationCompat\<close>.\<close>

definition getRtBindingAsyncCompilationCompat :: "DxvkImageView \<Rightarrow> bool" where
  "getRtBindingAsyncCompilationCompat v = (5 \<le> m_rtBindingFrameCount v)"

text \<open>
  Modelled from the spec: the body of the constructor of \<^verbatim>\<open>DxvkImageView\<close> is in
  dxvk_image.cpp, which is not among the files embedded here. The spec says that the
  view keeps a reference to its parent image and a copy of its create-info. The two
  frame tracking members start at their default member initialisers of the header,
  both 0.
\<close>

definition DxvkImageView_new :: "DxvkImage \<Rightarrow> DxvkImageViewCreateInfo \<Rightarrow> DxvkImageView" where
  "DxvkImageView_new img createInfo =
     \<lparr> m_image_view = img, m_info_view = createInfo,
       m_rtBindingFrameId = 0, m_rtBindingFrameCount = 0 \<rparr>"

text \<open>A run of render target bindings, one call per frame id, oldest first.\<close>

definition bindFrames :: "DxvkImageView \<Rightarrow> uint32_t list \<Rightarrow> DxvkImageView" where
  "bindFrames v frameIds = foldl setRtBindingFrameId v frameIds"

subsection \<open>Construction and destruction of images\<close>

text \<open>
  Modelled from the spec: the constructors and the destructor of \<^verbatim>\<open>DxvkImage\<close> are
  only declared in the header; their bodies are in dxvk_image.cpp, which is not
  among the files embedded here. The spec says: the wrapping constructor records the
  handle without taking ownership of it or of any memory; the allocating
  constructor creates the native image, requests a block from the allocator and
  binds it, and fails if the driver rejects the creation or no block can be
  allocated; destruction releases the native handle and returns the memory block to
  the allocator only if the image owns them, and does nothing otherwise. An image
  owns a memory block exactly when it allocated one itself. The driver's and the
  allocator's answers are parameters, and the effect of the destructor is the list
  of calls it makes.
\<close>

datatype construct_error = ImageCreationFailed | MemoryAllocationFailed

datatype teardown_call = DestroyImage VkImage | FreeMemory DxvkMemory

definition DxvkImage_wrap :: "DxvkImageCreateInfo \<Rightarrow> VkImage \<Rightarrow> DxvkImage" where
  "DxvkImage_wrap createInfo h =
     \<lparr> m_info = createInfo, m_memory = None, m_image = h \<rparr>"

definition DxvkImage_allocate ::
  "DxvkImageCreateInfo \<Rightarrow> VkImage option \<Rightarrow> DxvkMemory option \<Rightarrow> construct_error + DxvkImage" where
  "DxvkImage_allocate createInfo created allocated =
     (case created of
        None \<Rightarrow> Inl ImageCreationFailed
      | Some h \<Rightarrow>
          (case allocated of
             None \<Rightarrow> Inl MemoryAllocationFailed
           | Some block \<Rightarrow> Inr \<lparr> m_info = createInfo, m_memory = Some block, m_image = h \<rparr>))"

definition owning :: "DxvkImage \<Rightarrow> bool" where
  "owning img = (m_memory img \<noteq> None)"

definition DxvkImage_destroy :: "DxvkImage \<Rightarrow> teardown_call list" where
  "DxvkImage_destroy img =
     (case m_memory img of
        None \<Rightarrow> []
      | Some block \<Rightarrow> [DestroyImage (m_image img), FreeMemory block])"

subsection \<open>Concrete images and views used to evaluate the definitions\<close>

definition example_info :: DxvkImageCreateInfo where
  "example_info =
     \<lparr> type_image = 1, format_image = 37, flags = 0, sampleCount = 1,
       extent = \<lparr> width = 8, height = 4, depth = 1 \<rparr>,
       numLayers_image = 1, mipLevels = 4, usage_image = 0, stages = 0, access = 0,
       tiling = 0, layout = 5, viewFormats = [] \<rparr>"

definition example_image :: DxvkImage where
  "example_image = DxvkImage_wrap example_info 77"

definition example_wide_image :: DxvkImage where
  "example_wide_image =
     DxvkImage_wrap
       (example_info \<lparr> extent := \<lparr> width = 2147483648, height = 1, depth = 1 \<rparr>,
                       mipLevels := 32 \<rparr>) 79"

definition example_general_image :: DxvkImage where
  "example_general_image =
     DxvkImage_wrap (example_info \<lparr> layout := VK_IMAGE_LAYOUT_GENERAL \<rparr>) 78"

definition example_view_info :: DxvkImageViewCreateInfo where
  "example_view_info =
     DxvkImageViewCreateInfo_default
       \<lparr> aspect := 1, minLevel := 1, numLevels := 2, minLayer := 0, numLayers := 1 \<rparr>"

definition example_view :: DxvkImageView where
  "example_view =
     (DxvkImageView_new example_image example_view_info)
       \<lparr> m_rtBindingFrameId := 10, m_rtBindingFrameCount := 3 \<rparr>"

definition example_formats :: "VkFormat \<Rightarrow> DxvkFormatInfo" where
  "example_formats f = \<lparr> aspectMask_format = (if f = 37 then 1 else 6) \<rparr>"

definition example_owned_image :: DxvkImage where
  "example_owned_image = \<lparr> m_info = example_info, m_memory = Some 9, m_image = 5 \<rparr>"

definition example_subresource :: VkImageSubresourceLayers where
  "example_subresource =
     \<lparr> aspectMask_layers = 1, mipLevel = 1, baseArrayLayer_layers = 0,
       layerCount_layers = 1 \<rparr>"

section \<open>Properties\<close>

subsection \<open>Mip level extents\<close>

lemma drop_bit_word_antimono:
  fixes x :: "'a::len word"
  assumes "m \<le> n"
  shows "drop_bit n x \<le> drop_bit m x"
proof -
  have "unat x div 2 ^ n \<le> unat x div 2 ^ m"
    using assms by (intro div_le_mono2) (simp_all add: power_increasing)
  then have "drop_bit n (unat x) \<le> drop_bit m (unat x)"
    by (simp add: drop_bit_eq_div)
  then show ?thesis
    by (simp add: word_le_nat_alt unat_drop_bit_eq)
qed

lemma shr_u32_Some: "unat n < 32 \<Longrightarrow> shr_u32 x n = Some (drop_bit (unat n) x)"
  by (simp add: shr_u32_def)

lemma shr_u32_None: "\<not> unat n < 32 \<Longrightarrow> shr_u32 x n = None"
  by (simp add: shr_u32_def)

lemma mipLevelExtent_Some:
  "unat level < 32 \<Longrightarrow>
   mipLevelExtent img level =
     Some \<lparr> width = max 1 (drop_bit (unat level) (width (extent (m_info img)))),
            height = max 1 (drop_bit (unat level) (height (extent (m_info img)))),
            depth = max 1 (drop_bit (unat level) (depth (extent (m_info img)))) \<rparr>"
  by (simp add: mipLevelExtent_def shr_u32_Some Let_def)

lemma mipLevelExtent_None: "\<not> unat level < 32 \<Longrightarrow> mipLevelExtent img level = None"
  by (simp add: mipLevelExtent_def shr_u32_None Let_def)

lemma max_one_mono: "(a::'a::len word) \<le> b \<Longrightarrow> max 1 a \<le> max 1 b"
  by (simp add: max.coboundedI2)

lemma clamped_shift_antimono:
  fixes x :: uint32_t
  assumes "l \<le> l'"
  shows "max 1 (drop_bit (unat l') x) \<le> max 1 (drop_bit (unat l) x)"
proof -
  from assms have "unat l \<le> unat l'" by (simp add: word_le_nat_alt)
  then have "drop_bit (unat l') x \<le> drop_bit (unat l) x" by (rule drop_bit_word_antimono)
  then show ?thesis by (rule max_one_mono)
qed

text \<open>
  Claim C3, as the code has it. For every image and every level below 32,
  \<^verbatim>\<open>DxvkImage::mipLevelExtent\<close> returns, for each of width, height and depth on its
  own, the maximum of 1 and the base extent shifted right by the level. For two
  levels \<open>l \<le> l'\<close> below 32, both calls return, every component at \<open>l'\<close> is at least
  1, and no component at \<open>l'\<close> exceeds the one at \<open>l\<close>. This covers all levels up to
  the declared mip count whenever that count is below 32.
\<close>

theorem mipLevelExtent_below_32:
  "(unat level < 32 \<longrightarrow>
      mipLevelExtent img level =
        Some \<lparr> width = max 1 (drop_bit (unat level) (width (extent (m_info img)))),
               height = max 1 (drop_bit (unat level) (height (extent (m_info img)))),
               depth = max 1 (drop_bit (unat level) (depth (extent (m_info img)))) \<rparr>) \<and>
   (l \<le> l' \<and> unat l' < 32 \<longrightarrow>
      (\<exists>e e'. mipLevelExtent img l = Some e \<and> mipLevelExtent img l' = Some e' \<and>
         1 \<le> width e' \<and> 1 \<le> height e' \<and> 1 \<le> depth e' \<and>
         width e' \<le> width e \<and> height e' \<le> height e \<and> depth e' \<le> depth e))"
proof (intro conjI impI)
  assume "unat level < 32"
  then show "mipLevelExtent img level =
        Some \<lparr> width = max 1 (drop_bit (unat level) (width (extent (m_info img)))),
               height = max 1 (drop_bit (unat level) (height (extent (m_info img)))),
               depth = max 1 (drop_bit (unat level) (depth (extent (m_info img)))) \<rparr>"
    by (rule mipLevelExtent_Some)
next
  assume a: "l \<le> l' \<and> unat l' < 32"
  then have le: "l \<le> l'" and hi: "unat l' < 32" by simp_all
  from le hi have lo: "unat l < 32" by (simp add: word_le_nat_alt)
  show "\<exists>e e'. mipLevelExtent img l = Some e \<and> mipLevelExtent img l' = Some e' \<and>
         1 \<le> width e' \<and> 1 \<le> height e' \<and> 1 \<le> depth e' \<and>
         width e' \<le> width e \<and> height e' \<le> height e \<and> depth e' \<le> depth e"
    using clamped_shift_antimono [OF le]
    by (simp add: mipLevelExtent_Some [OF lo] mipLevelExtent_Some [OF hi])
qed

theorem mipLevelExtent_below_32_witness:
  "unat (2 :: uint32_t) < 32 \<and>
   mipLevelExtent example_image 2 = Some \<lparr> width = 2, height = 1, depth = 1 \<rparr> \<and>
   (1 :: uint32_t) \<le> 2 \<and>
   mipLevelExtent example_image 1 = Some \<lparr> width = 4, height = 2, depth = 1 \<rparr> \<and>
   (\<exists>e e'. mipLevelExtent example_image 1 = Some e \<and>
      mipLevelExtent example_image 2 = Some e' \<and>
      1 \<le> width e' \<and> 1 \<le> height e' \<and> 1 \<le> depth e' \<and>
      width e' \<le> width e \<and> height e' \<le> height e \<and> depth e' \<le> depth e)"
proof -
  have h: "unat (2 :: uint32_t) < 32" by simp
  have h': "(1 :: uint32_t) \<le> 2 \<and> unat (2 :: uint32_t) < 32" by simp
  have h1: "unat (1 :: uint32_t) < 32" by simp
  have a: "mipLevelExtent example_image 2 = Some \<lparr> width = 2, height = 1, depth = 1 \<rparr>"
    using mipLevelExtent_below_32 [of 2 example_image 1 2] h
    by (simp add: example_image_def example_info_def DxvkImage_wrap_def drop_bit_eq_div)
  have b: "mipLevelExtent example_image 1 = Some \<lparr> width = 4, height = 2, depth = 1 \<rparr>"
    using mipLevelExtent_below_32 [of 1 example_image 1 2] h1
    by (simp add: example_image_def example_info_def DxvkImage_wrap_def drop_bit_eq_div)
  have c: "\<exists>e e'. mipLevelExtent example_image 1 = Some e \<and>
      mipLevelExtent example_image 2 = Some e' \<and>
      1 \<le> width e' \<and> 1 \<le> height e' \<and> 1 \<le> depth e' \<and>
      width e' \<le> width e \<and> height e' \<le> height e \<and> depth e' \<le> depth e"
    using mipLevelExtent_below_32 [of 2 example_image 1 2, THEN conjunct2] h' by (rule mp)
  from h h' a b c show ?thesis by blast
qed

text \<open>
  Claim C3 as stated, for every level, fails at level 32: the shift of a 32-bit
  operand by 32 is undefined in C++, so the call on an 8 x 4 x 1 image has no
  defined result, and in particular not the extent 1 x 1 x 1 of the formula. The
  same holds within the declared mip count, for an image of width \<open>2 ^ 31\<close> that
  declares 32 mip levels.
\<close>

theorem mipLevelExtent_level_32_undefined:
  "mipLevelExtent example_image 32 = None \<and>
   32 \<le> mipLevels (m_info example_wide_image) \<and>
   mipLevelExtent example_wide_image 32 = None"
  by (simp add: mipLevelExtent_None example_wide_image_def DxvkImage_wrap_def)

subsection \<open>isFullSubresource\<close>

text \<open>
  Claim C4, as the code has it. For every image, every extent and every
  subresource whose mip level is below 32, \<^verbatim>\<open>DxvkImage::isFullSubresource\<close> returns
  true iff the aspect mask of the subresource equals the full aspect mask of the
  image format and the extent equals the extent of that mip level, and false
  otherwise. When the aspect masks differ it returns false for every mip level, as
  the right operand of \<^verbatim>\<open>&&\<close> is not evaluated.
\<close>

theorem isFullSubresource_below_32:
  "(unat (mipLevel subresource) < 32 \<longrightarrow>
      isFullSubresource fi img subresource ext =
        Some (aspectMask_layers subresource = aspectMask_format (formatInfo fi img) \<and>
              mipLevelExtent img (mipLevel subresource) = Some ext)) \<and>
   (aspectMask_layers subresource \<noteq> aspectMask_format (formatInfo fi img) \<longrightarrow>
      isFullSubresource fi img subresource ext = Some False)"
proof (intro conjI impI)
  assume lt: "unat (mipLevel subresource) < 32"
  show "isFullSubresource fi img subresource ext =
        Some (aspectMask_layers subresource = aspectMask_format (formatInfo fi img) \<and>
              mipLevelExtent img (mipLevel subresource) = Some ext)"
    by (auto simp add: isFullSubresource_def mipLevelExtent_Some [OF lt])
next
  assume "aspectMask_layers subresource \<noteq> aspectMask_format (formatInfo fi img)"
  then show "isFullSubresource fi img subresource ext = Some False"
    by (simp add: isFullSubresource_def)
qed

theorem isFullSubresource_below_32_witness:
  "unat (mipLevel example_subresource) < 32 \<and>
   isFullSubresource example_formats example_image example_subresource
     \<lparr> width = 4, height = 2, depth = 1 \<rparr> = Some True \<and>
   isFullSubresource example_formats example_image example_subresource
     \<lparr> width = 2, height = 1, depth = 1 \<rparr> = Some False \<and>
   aspectMask_layers (example_subresource \<lparr> aspectMask_layers := 2 \<rparr>)
     \<noteq> aspectMask_format (formatInfo example_formats example_image) \<and>
   isFullSubresource example_formats example_image
     (example_subresource \<lparr> aspectMask_layers := 2 \<rparr>)
     \<lparr> width = 4, height = 2, depth = 1 \<rparr> = Some False"
proof -
  have lt: "unat (mipLevel example_subresource) < 32"
    by (simp add: example_subresource_def)
  have m: "mipLevelExtent example_image (mipLevel example_subresource)
             = Some \<lparr> width = 4, height = 2, depth = 1 \<rparr>"
    by (simp add: mipLevelExtent_Some example_subresource_def example_image_def
        example_info_def DxvkImage_wrap_def drop_bit_eq_div)
  have eq: "aspectMask_layers example_subresource
              = aspectMask_format (formatInfo example_formats example_image)"
    by (simp add: example_subresource_def formatInfo_def example_formats_def
        example_image_def example_info_def DxvkImage_wrap_def)
  have ne: "aspectMask_layers (example_subresource \<lparr> aspectMask_layers := 2 \<rparr>)
              \<noteq> aspectMask_format (formatInfo example_formats example_image)"
    by (simp add: example_subresource_def formatInfo_def example_formats_def
        example_image_def example_info_def DxvkImage_wrap_def)
  have a: "isFullSubresource example_formats example_image example_subresource
             \<lparr> width = 4, height = 2, depth = 1 \<rparr> = Some True"
    using isFullSubresource_below_32
            [of example_subresource example_formats example_image
                "\<lparr> width = 4, height = 2, depth = 1 \<rparr>"] lt m eq
    by simp
  have b: "isFullSubresource example_formats example_image example_subresource
             \<lparr> width = 2, height = 1, depth = 1 \<rparr> = Some False"
    using isFullSubresource_below_32
            [of example_subresource example_formats example_image
                "\<lparr> width = 2, height = 1, depth = 1 \<rparr>"] lt m
    by simp
  have c: "isFullSubresource example_formats example_image
             (example_subresource \<lparr> aspectMask_layers := 2 \<rparr>)
             \<lparr> width = 4, height = 2, depth = 1 \<rparr> = Some False"
    using isFullSubresource_below_32
            [of "example_subresource \<lparr> aspectMask_layers := 2 \<rparr>" example_formats
                example_image "\<lparr> width = 4, height = 2, depth = 1 \<rparr>"] ne
    by blast
  from lt a b ne c show ?thesis by blast
qed

text \<open>
  Claim C4 as stated, for every subresource, fails at mip level 32 with a matching
  aspect mask: the extent of the level is undefined there, so the call returns
  neither true nor false.
\<close>

theorem isFullSubresource_level_32_undefined:
  "isFullSubresource example_formats example_image
     (example_subresource \<lparr> mipLevel := 32 \<rparr>) \<lparr> width = 1, height = 1, depth = 1 \<rparr>
     = None"
  by (simp add: isFullSubresource_def mipLevelExtent_None example_subresource_def
      formatInfo_def example_formats_def example_image_def example_info_def
      DxvkImage_wrap_def)

subsection \<open>pickLayout\<close>

text \<open>
  Claim C5. An image whose declared layout is \<^verbatim>\<open>VK_IMAGE_LAYOUT_GENERAL\<close> answers
  every requested layout with the general layout; any other image returns the
  requested layout unchanged.
\<close>

theorem pickLayout_general_or_requested:
  "(layout (m_info img) = VK_IMAGE_LAYOUT_GENERAL \<longrightarrow>
      pickLayout img requested = VK_IMAGE_LAYOUT_GENERAL) \<and>
   (layout (m_info img) \<noteq> VK_IMAGE_LAYOUT_GENERAL \<longrightarrow>
      pickLayout img requested = requested)"
  by (simp add: pickLayout_def)

theorem pickLayout_general_or_requested_witness:
  "layout (m_info example_general_image) = VK_IMAGE_LAYOUT_GENERAL \<and>
   pickLayout example_general_image 7 = VK_IMAGE_LAYOUT_GENERAL \<and>
   layout (m_info example_image) \<noteq> VK_IMAGE_LAYOUT_GENERAL \<and>
   pickLayout example_image 7 = 7"
proof -
  have g: "layout (m_info example_general_image) = VK_IMAGE_LAYOUT_GENERAL"
    by (simp add: example_general_image_def DxvkImage_wrap_def)
  have n: "layout (m_info example_image) \<noteq> VK_IMAGE_LAYOUT_GENERAL"
    by (simp add: example_image_def example_info_def DxvkImage_wrap_def
        VK_IMAGE_LAYOUT_GENERAL_def)
  have a: "pickLayout example_general_image 7 = VK_IMAGE_LAYOUT_GENERAL"
    using pickLayout_general_or_requested [of example_general_image 7] g by blast
  have b: "pickLayout example_image 7 = 7"
    using pickLayout_general_or_requested [of example_image 7] n by blast
  from g a n b show ?thesis by blast
qed


subsection \<open>Frame tracking\<close>

lemma setRtBindingFrameId_same:
  "setRtBindingFrameId v (m_rtBindingFrameId v) = v"
  by (simp add: setRtBindingFrameId_def)

lemma setRtBindingFrameId_next:
  "setRtBindingFrameId v (m_rtBindingFrameId v + 1) =
     v \<lparr> m_rtBindingFrameCount := m_rtBindingFrameCount v + 1,
         m_rtBindingFrameId := m_rtBindingFrameId v + 1 \<rparr>"
  by (simp add: setRtBindingFrameId_def)

lemma setRtBindingFrameId_other:
  "frameId \<noteq> m_rtBindingFrameId v \<Longrightarrow> frameId \<noteq> m_rtBindingFrameId v + 1 \<Longrightarrow>
   setRtBindingFrameId v frameId =
     v \<lparr> m_rtBindingFrameCount := 0, m_rtBindingFrameId := frameId \<rparr>"
  by (simp add: setRtBindingFrameId_def)

lemma successor_u32:
  fixes a b :: uint32_t
  shows "(a = b + 1) = (unat a = (unat b + 1) mod 2 ^ 32)"
proof
  assume "a = b + 1"
  then show "unat a = (unat b + 1) mod 2 ^ 32"
    by (simp add: unat_word_ariths)
next
  assume "unat a = (unat b + 1) mod 2 ^ 32"
  then have "unat a = unat (b + 1)"
    by (simp add: unat_word_ariths)
  then show "a = b + 1"
    by (rule word_unat_eq_iff [THEN iffD2])
qed

text \<open>
  Claim C1. \<^verbatim>\<open>setRtBindingFrameId\<close> is a transition with three cases, in every state
  of the view (so also in every reachable one): the frame id of the last call
  leaves the view unchanged; its successor adds 1 to the frame count and stores the
  frame id; any other frame id sets the frame count to 0 and stores the frame id.
  Nothing else of the view changes. The sums are \<^verbatim>\<open>uint32_t\<close> sums.
\<close>

theorem setRtBindingFrameId_three_cases:
  "(frameId = m_rtBindingFrameId v \<longrightarrow> setRtBindingFrameId v frameId = v) \<and>
   (frameId \<noteq> m_rtBindingFrameId v \<and> frameId = m_rtBindingFrameId v + 1 \<longrightarrow>
      setRtBindingFrameId v frameId =
        v \<lparr> m_rtBindingFrameCount := m_rtBindingFrameCount v + 1,
            m_rtBindingFrameId := frameId \<rparr>) \<and>
   (frameId \<noteq> m_rtBindingFrameId v \<and> frameId \<noteq> m_rtBindingFrameId v + 1 \<longrightarrow>
      setRtBindingFrameId v frameId =
        v \<lparr> m_rtBindingFrameCount := 0, m_rtBindingFrameId := frameId \<rparr>)"
  by (simp add: setRtBindingFrameId_same setRtBindingFrameId_next setRtBindingFrameId_other)

theorem setRtBindingFrameId_three_cases_witness:
  "10 = m_rtBindingFrameId example_view \<and>
   setRtBindingFrameId example_view 10 = example_view \<and>
   11 \<noteq> m_rtBindingFrameId example_view \<and> 11 = m_rtBindingFrameId example_view + 1 \<and>
   setRtBindingFrameId example_view 11 =
     example_view \<lparr> m_rtBindingFrameCount := 4, m_rtBindingFrameId := 11 \<rparr> \<and>
   13 \<noteq> m_rtBindingFrameId example_view \<and> 13 \<noteq> m_rtBindingFrameId example_view + 1 \<and>
   setRtBindingFrameId example_view 13 =
     example_view \<lparr> m_rtBindingFrameCount := 0, m_rtBindingFrameId := 13 \<rparr>"
proof -
  have i: "m_rtBindingFrameId example_view = 10"
    and c: "m_rtBindingFrameCount example_view = 3"
    by (simp_all add: example_view_def)
  have a: "setRtBindingFrameId example_view 10 = example_view"
    using setRtBindingFrameId_three_cases [of 10 example_view] i by simp
  have b: "setRtBindingFrameId example_view 11 =
     example_view \<lparr> m_rtBindingFrameCount := 4, m_rtBindingFrameId := 11 \<rparr>"
    using setRtBindingFrameId_three_cases [of 11 example_view] i c by simp
  have d: "setRtBindingFrameId example_view 13 =
     example_view \<lparr> m_rtBindingFrameCount := 0, m_rtBindingFrameId := 13 \<rparr>"
    using setRtBindingFrameId_three_cases [of 13 example_view] i by simp
  from i a b d show ?thesis by simp
qed

text \<open>
  Claim C2. \<^verbatim>\<open>getRtBindingAsyncCompilationCompat\<close> holds iff the frame count is at
  least 5. On a new view the frame ids 10, 11, 12, 13, 14, 15 give the frame count
  5 after the sixth call; the predicate is false on the new view and after each of
  the first five calls, and true after the sixth. In the run 10, 11, 13 the count
  is 1 after 11 and 0 after 13. A second call with the same frame id changes
  nothing.
\<close>

theorem getRtBindingAsyncCompilationCompat_sequences:
  "getRtBindingAsyncCompilationCompat v = (5 \<le> m_rtBindingFrameCount v) \<and>
   \<not> getRtBindingAsyncCompilationCompat (DxvkImageView_new img ci) \<and>
   \<not> getRtBindingAsyncCompilationCompat (bindFrames (DxvkImageView_new img ci) [10]) \<and>
   \<not> getRtBindingAsyncCompilationCompat (bindFrames (DxvkImageView_new img ci) [10, 11]) \<and>
   \<not> getRtBindingAsyncCompilationCompat
       (bindFrames (DxvkImageView_new img ci) [10, 11, 12]) \<and>
   \<not> getRtBindingAsyncCompilationCompat
       (bindFrames (DxvkImageView_new img ci) [10, 11, 12, 13]) \<and>
   \<not> getRtBindingAsyncCompilationCompat
       (bindFrames (DxvkImageView_new img ci) [10, 11, 12, 13, 14]) \<and>
   m_rtBindingFrameCount (bindFrames (DxvkImageView_new img ci) [10, 11, 12, 13, 14, 15]) = 5 \<and>
   getRtBindingAsyncCompilationCompat
     (bindFrames (DxvkImageView_new img ci) [10, 11, 12, 13, 14, 15]) \<and>
   m_rtBindingFrameCount (bindFrames (DxvkImageView_new img ci) [10, 11]) = 1 \<and>
   m_rtBindingFrameCount (bindFrames (DxvkImageView_new img ci) [10, 11, 13]) = 0 \<and>
   setRtBindingFrameId (setRtBindingFrameId v frameId) frameId = setRtBindingFrameId v frameId"
  by (simp add: getRtBindingAsyncCompilationCompat_def bindFrames_def DxvkImageView_new_def
      setRtBindingFrameId_def word_le_nat_alt)

text \<open>
  Claim C9. A new view has last frame id 0 and frame count 0. Hence a first call
  with frame id 0 leaves the view unchanged, and a first call with frame id 1 counts
  as a successor of frame 0: the frame count becomes 1.
\<close>

theorem fresh_view_frame_tracking:
  "m_rtBindingFrameId (DxvkImageView_new img ci) = 0 \<and>
   m_rtBindingFrameCount (DxvkImageView_new img ci) = 0 \<and>
   setRtBindingFrameId (DxvkImageView_new img ci) 0 = DxvkImageView_new img ci \<and>
   setRtBindingFrameId (DxvkImageView_new img ci) 1 =
     (DxvkImageView_new img ci) \<lparr> m_rtBindingFrameCount := 1, m_rtBindingFrameId := 1 \<rparr> \<and>
   m_rtBindingFrameCount (setRtBindingFrameId (DxvkImageView_new img ci) 1) = 1"
  by (simp add: DxvkImageView_new_def setRtBindingFrameId_def)

text \<open>
  Claim C10. The successor test of \<^verbatim>\<open>setRtBindingFrameId\<close> is a test modulo
  \<open>2 ^ 32\<close>: for a frame id other than the last one, the frame count is incremented
  iff the frame id is the last one plus 1 modulo \<open>2 ^ 32\<close>, and reset otherwise. In a
  state whose last frame id is \<open>2 ^ 32 - 1\<close>, the call with frame id 0 increments the
  frame count and stores 0.
\<close>

theorem setRtBindingFrameId_wraps_at_max:
  "(frameId \<noteq> m_rtBindingFrameId v \<longrightarrow>
      m_rtBindingFrameCount (setRtBindingFrameId v frameId) =
        (if unat frameId = (unat (m_rtBindingFrameId v) + 1) mod 2 ^ 32
         then m_rtBindingFrameCount v + 1 else 0)) \<and>
   (m_rtBindingFrameId v = 4294967295 \<longrightarrow>
      setRtBindingFrameId v 0 =
        v \<lparr> m_rtBindingFrameCount := m_rtBindingFrameCount v + 1, m_rtBindingFrameId := 0 \<rparr>)"
proof (intro conjI impI)
  assume "frameId \<noteq> m_rtBindingFrameId v"
  then show "m_rtBindingFrameCount (setRtBindingFrameId v frameId) =
        (if unat frameId = (unat (m_rtBindingFrameId v) + 1) mod 2 ^ 32
         then m_rtBindingFrameCount v + 1 else 0)"
    using successor_u32 [of frameId "m_rtBindingFrameId v"]
    by (simp add: setRtBindingFrameId_def)
next
  assume "m_rtBindingFrameId v = 4294967295"
  then show "setRtBindingFrameId v 0 =
        v \<lparr> m_rtBindingFrameCount := m_rtBindingFrameCount v + 1, m_rtBindingFrameId := 0 \<rparr>"
    by (simp add: setRtBindingFrameId_def)
qed

theorem setRtBindingFrameId_wraps_at_max_witness:
  "m_rtBindingFrameId (example_view \<lparr> m_rtBindingFrameId := 4294967295 \<rparr>) = 4294967295 \<and>
   (0 :: uint32_t) \<noteq> 4294967295 \<and>
   unat (0 :: uint32_t) = (unat (4294967295 :: uint32_t) + 1) mod 2 ^ 32 \<and>
   setRtBindingFrameId (example_view \<lparr> m_rtBindingFrameId := 4294967295 \<rparr>) 0 =
     example_view \<lparr> m_rtBindingFrameCount := 4, m_rtBindingFrameId := 0 \<rparr>"
proof -
  have i: "m_rtBindingFrameId (example_view \<lparr> m_rtBindingFrameId := 4294967295 \<rparr>) = 4294967295"
    by simp
  have c: "m_rtBindingFrameCount (example_view \<lparr> m_rtBindingFrameId := 4294967295 \<rparr>) = 3"
    by (simp add: example_view_def)
  have n: "(0 :: uint32_t) \<noteq> 4294967295" by simp
  have u: "unat (0 :: uint32_t) = (unat (4294967295 :: uint32_t) + 1) mod 2 ^ 32" by simp
  have a: "setRtBindingFrameId (example_view \<lparr> m_rtBindingFrameId := 4294967295 \<rparr>) 0 =
     example_view \<lparr> m_rtBindingFrameCount := 4, m_rtBindingFrameId := 0 \<rparr>"
    using setRtBindingFrameId_wraps_at_max
            [of 0 "example_view \<lparr> m_rtBindingFrameId := 4294967295 \<rparr>"] i c
    by simp
  from i n u a show ?thesis by blast
qed

subsection \<open>Views and their images\<close>

text \<open>
  Claim C8. The mip level extent of a view at a level is the mip level extent of its
  image at the level plus the base mip level of the view, a \<^verbatim>\<open>uint32_t\<close> sum; with
  base mip level 0 it is the mip level extent of the image at the same level. Where
  the sum is below 32 the result is the clamped shift of the image extent.
\<close>

theorem mipLevelExtent_view_offset:
  "mipLevelExtent_view v level =
     mipLevelExtent (m_image_view v) (level + minLevel (m_info_view v)) \<and>
   (minLevel (m_info_view v) = 0 \<longrightarrow>
      mipLevelExtent_view v level = mipLevelExtent (m_image_view v) level) \<and>
   (unat (level + minLevel (m_info_view v)) < 32 \<longrightarrow>
      mipLevelExtent_view v level =
        Some \<lparr> width = max 1 (drop_bit (unat (level + minLevel (m_info_view v)))
                               (width (extent (m_info (m_image_view v))))),
               height = max 1 (drop_bit (unat (level + minLevel (m_info_view v)))
                               (height (extent (m_info (m_image_view v))))),
               depth = max 1 (drop_bit (unat (level + minLevel (m_info_view v)))
                               (depth (extent (m_info (m_image_view v))))) \<rparr>)"
  by (simp add: mipLevelExtent_view_def mipLevelExtent_Some)

theorem mipLevelExtent_view_offset_witness:
  "minLevel (m_info_view (example_view \<lparr> m_info_view := DxvkImageViewCreateInfo_default \<rparr>)) = 0 \<and>
   mipLevelExtent_view (example_view \<lparr> m_info_view := DxvkImageViewCreateInfo_default \<rparr>) 1 =
     mipLevelExtent example_image 1 \<and>
   unat (1 + minLevel (m_info_view example_view)) < 32 \<and>
   mipLevelExtent_view example_view 1 = Some \<lparr> width = 2, height = 1, depth = 1 \<rparr>"
proof -
  have z: "minLevel (m_info_view (example_view \<lparr> m_info_view := DxvkImageViewCreateInfo_default \<rparr>)) = 0"
    by (simp add: DxvkImageViewCreateInfo_default_def)
  have i: "m_image_view (example_view \<lparr> m_info_view := DxvkImageViewCreateInfo_default \<rparr>)
             = example_image"
    by (simp add: example_view_def DxvkImageView_new_def)
  have a: "mipLevelExtent_view (example_view \<lparr> m_info_view := DxvkImageViewCreateInfo_default \<rparr>) 1 =
     mipLevelExtent example_image 1"
    using mipLevelExtent_view_offset
            [of "example_view \<lparr> m_info_view := DxvkImageViewCreateInfo_default \<rparr>" 1] z i
    by simp
  have m: "minLevel (m_info_view example_view) = 1"
    by (simp add: example_view_def DxvkImageView_new_def example_view_info_def)
  have e: "extent (m_info (m_image_view example_view)) = \<lparr> width = 8, height = 4, depth = 1 \<rparr>"
    by (simp add: example_view_def DxvkImageView_new_def example_image_def
        DxvkImage_wrap_def example_info_def)
  have lt: "unat (1 + minLevel (m_info_view example_view)) < 32"
    by (simp add: m)
  have b: "mipLevelExtent_view example_view 1 = Some \<lparr> width = 2, height = 1, depth = 1 \<rparr>"
    using mipLevelExtent_view_offset [of example_view 1, THEN conjunct2, THEN conjunct2] lt
    by (simp add: m e drop_bit_eq_div)
  from z a lt b show ?thesis by blast
qed

text \<open>
  Claim C6. The subresource range of a view constructed from a create-info has the
  aspect, minLevel, numLevels, minLayer and numLayers of that create-info as its
  aspect mask, base mip level, level count, base array layer and layer count. For
  any view the range is made of the stored create-info alone: two views with the
  same create-info have the same range, whatever their images and frame tracking
  members are. The function returns the range and nothing else, and a call of
  \<^verbatim>\<open>setRtBindingFrameId\<close> does not change the range.
\<close>

theorem subresources_round_trip:
  "subresources (DxvkImageView_new img ci) =
     \<lparr> aspectMask = aspect ci, baseMipLevel = minLevel ci, levelCount = numLevels ci,
       baseArrayLayer = minLayer ci, layerCount = numLayers ci \<rparr> \<and>
   aspectMask (subresources v) = aspect (m_info_view v) \<and>
   baseMipLevel (subresources v) = minLevel (m_info_view v) \<and>
   levelCount (subresources v) = numLevels (m_info_view v) \<and>
   baseArrayLayer (subresources v) = minLayer (m_info_view v) \<and>
   layerCount (subresources v) = numLayers (m_info_view v) \<and>
   (m_info_view v = m_info_view v' \<longrightarrow> subresources v = subresources v') \<and>
   subresources (setRtBindingFrameId v frameId) = subresources v"
  by (simp add: subresources_def DxvkImageView_new_def setRtBindingFrameId_def Let_def)

theorem subresources_round_trip_witness:
  "m_info_view example_view = m_info_view (DxvkImageView_new example_general_image example_view_info) \<and>
   subresources example_view =
     subresources (DxvkImageView_new example_general_image example_view_info) \<and>
   subresources (DxvkImageView_new example_general_image example_view_info) =
     \<lparr> aspectMask = 1, baseMipLevel = 1, levelCount = 2, baseArrayLayer = 0, layerCount = 1 \<rparr>"
proof -
  have h: "m_info_view example_view
             = m_info_view (DxvkImageView_new example_general_image example_view_info)"
    by (simp add: example_view_def DxvkImageView_new_def)
  have a: "subresources example_view =
     subresources (DxvkImageView_new example_general_image example_view_info)"
    using subresources_round_trip
            [of example_general_image example_view_info example_view
                "DxvkImageView_new example_general_image example_view_info" 0] h
    by blast
  have b: "subresources (DxvkImageView_new example_general_image example_view_info) =
     \<lparr> aspectMask = 1, baseMipLevel = 1, levelCount = 2, baseArrayLayer = 0, layerCount = 1 \<rparr>"
    using subresources_round_trip
            [of example_general_image example_view_info example_view example_view 0]
    by (simp add: example_view_info_def DxvkImageViewCreateInfo_default_def)
  from h a b show ?thesis by blast
qed

subsection \<open>Ownership and destruction\<close>

text \<open>
  Claim C7. Destroying an image that wraps a handle supplied from outside makes no
  call at all: the handle is not released and no memory block goes back to the
  allocator. For any image, a call that releases the handle or frees a block is
  made only if the image owns a memory block, and an image built by the wrapping
  constructor never does.
\<close>

theorem destroy_borrowed_no_teardown:
  "DxvkImage_destroy (DxvkImage_wrap createInfo h) = [] \<and>
   \<not> owning (DxvkImage_wrap createInfo h) \<and>
   (DxvkImage_destroy img \<noteq> [] \<longrightarrow> owning img) \<and>
   (\<not> owning img \<longrightarrow> DxvkImage_destroy img = [])"
  by (simp add: DxvkImage_destroy_def DxvkImage_wrap_def owning_def split: option.splits)

theorem destroy_borrowed_no_teardown_witness:
  "DxvkImage_allocate example_info (Some 5) (Some 9) = Inr example_owned_image \<and>
   DxvkImage_destroy example_owned_image = [DestroyImage 5, FreeMemory 9] \<and>
   DxvkImage_destroy example_owned_image \<noteq> [] \<and> owning example_owned_image \<and>
   \<not> owning example_image \<and> DxvkImage_destroy example_image = []"
proof -
  have c: "DxvkImage_allocate example_info (Some 5) (Some 9) = Inr example_owned_image"
    by (simp add: DxvkImage_allocate_def example_owned_image_def)
  have d: "DxvkImage_destroy example_owned_image = [DestroyImage 5, FreeMemory 9]"
    by (simp add: DxvkImage_destroy_def example_owned_image_def)
  then have n: "DxvkImage_destroy example_owned_image \<noteq> []"
    by simp
  have o: "owning example_owned_image"
    using destroy_borrowed_no_teardown [of example_info 77 example_owned_image] n by blast
  have b: "\<not> owning example_image"
    using destroy_borrowed_no_teardown [of example_info 77 example_owned_image]
    by (simp add: example_image_def)
  have e: "DxvkImage_destroy example_image = []"
    using destroy_borrowed_no_teardown [of example_info 77 example_image] b by blast
  from c d n o b e show ?thesis by blast
qed

end
